theory Spec2Isabelle
  imports Complex_Main "HOL-Library.AList"
begin

section \<open>Values of the Python program\<close>

text \<open>
  Python strings are modelled as \<open>string\<close>; a character outside ASCII is held as its
  UTF-8 bytes. Decoded JSON (the result of \<open>response.json()\<close>) is the datatype
  \<open>json\<close>: a dict is an association list with distinct keys, a JSON number that
  is not an integer is held as the text Python prints for it.
\<close>

datatype json =
    JNull
  | JBool bool
  | JInt int
  | JFloat string
  | JStr string
  | JList "json list"
  | JObj "(string \<times> json) list"

datatype pyerr =
    KeyError string
  | TypeError
  | AttributeError
  | ValueError
  | JSONDecodeError
  | ConnectionError
  | CalledProcessError
  | OtherError

text \<open>Truthiness of a decoded JSON value, as \<open>if v:\<close> tests it.\<close>

fun truthy :: "json \<Rightarrow> bool" where
  "truthy JNull = False"
| "truthy (JBool b) = b"
| "truthy (JInt i) = (i \<noteq> 0)"
| "truthy (JFloat s) = (s \<noteq> ''0.0'' \<and> s \<noteq> ''-0.0'')"
| "truthy (JStr s) = (s \<noteq> [])"
| "truthy (JList xs) = (xs \<noteq> [])"
| "truthy (JObj kvs) = (kvs \<noteq> [])"

text \<open>\<open>d[k]\<close> on a decoded JSON value: KeyError on a missing key, TypeError on a
  value that is no dict (a list, a string or a number indexed by a string).\<close>

fun getitem :: "json \<Rightarrow> string \<Rightarrow> pyerr + json" where
  "getitem (JObj kvs) k = (case map_of kvs k of None \<Rightarrow> Inl (KeyError k) | Some v \<Rightarrow> Inr v)"
| "getitem _ k = Inl TypeError"

subsection \<open>Decimal text of an integer\<close>

fun show_nat :: "nat \<Rightarrow> string" where
  "show_nat n = (if n < 10 then [char_of (48 + n)]
                 else show_nat (n div 10) @ [char_of (48 + n mod 10)])"

declare show_nat.simps [simp del]

definition show_int :: "int \<Rightarrow> string" where
  "show_int i = (if i < 0 then CHR ''-'' # show_nat (nat (- i)) else show_nat (nat i))"

text \<open>\<open>sep.join(xs)\<close>.\<close>

fun join :: "string \<Rightarrow> string list \<Rightarrow> string" where
  "join sep [] = []"
| "join sep [x] = x"
| "join sep (x # y # ys) = x @ sep @ join sep (y # ys)"

text \<open>\<open>s.startswith(p)\<close>.\<close>

definition startswith :: "string \<Rightarrow> string \<Rightarrow> bool" where
  "startswith s p = (take (length p) s = p)"

section \<open>Time-remaining formatter\<close>

text \<open>
  The duration is a Python float; it is modelled as the exact rational number of seconds.
  \<open>py_round\<close> is Python's \<open>round\<close> to an integer (ties go to the even neighbour),
  \<open>py_divmod\<close> is \<open>divmod\<close> with a positive divisor: floor quotient and a
  remainder that is never negative.
\<close>

definition py_round :: "rat \<Rightarrow> int" where
  "py_round x =
     (let f = floor x; d = x - of_int f
      in if d < 1 / 2 then f
         else if 1 / 2 < d then f + 1
         else if even f then f else f + 1)"

definition py_divmod :: "rat \<Rightarrow> rat \<Rightarrow> rat \<times> rat" where
  "py_divmod x w = (of_int (floor (x / w)), x - of_int (floor (x / w)) * w)"

definition czechTime :: "rat \<Rightarrow> string \<Rightarrow> string \<Rightarrow> string \<Rightarrow> string" where
  "czechTime value0 first_form second_form third_form =
     (let v = py_round value0
      in if v = 0 then []
         else if v = 1 then show_int v @ '' '' @ first_form
         else if v < 5 then show_int v @ '' '' @ second_form
         else show_int v @ '' '' @ third_form)"

definition str_stale :: string where
  "str_stale = ''st'' @ [CHR 0xC3, CHR 0xA1] @ ''le''"

definition str_nevygenerovano :: string where
  "str_nevygenerovano = ''Nevygenerov'' @ [CHR 0xC3, CHR 0xA1] @ ''no''"

definition str_dnu :: string where
  "str_dnu = ''dn'' @ [CHR 0xC5, CHR 0xAF]"

text \<open>
  The four components of a duration of \<open>secs\<close> seconds, as the three \<open>divmod\<close>
  calls of \<open>formatTime\<close> produce them: days, hours, minutes, seconds.
\<close>

definition components :: "rat \<Rightarrow> rat \<times> rat \<times> rat \<times> rat" where
  "components secs =
     (let (days, hours0) = py_divmod secs (60 * 60 * 24);
          (hours, minutes0) = py_divmod hours0 (60 * 60);
          (minutes, seconds) = py_divmod minutes0 60
      in (days, hours, minutes, seconds))"

text \<open>The list \<open>ret\<close>: the component texts that are not empty, in order.\<close>

definition ret_list :: "rat \<Rightarrow> string list" where
  "ret_list secs =
     (let (days, hours, minutes, seconds) = components secs;
          day_str = czechTime days ''den'' ''dny'' str_dnu;
          hour_str = czechTime hours ''hodina'' ''hodiny'' ''hodin'';
          minute_str = czechTime minutes ''minuta'' ''minuty'' ''minut'';
          second_str = czechTime seconds ''sekunda'' ''sekundy'' ''sekund''
      in filter (\<lambda>x. x \<noteq> []) [day_str, hour_str, minute_str, second_str])"

text \<open>The last three lines of the generated branch: how \<open>ret\<close> is joined.\<close>

definition join_ret :: "string list \<Rightarrow> string" where
  "join_ret ret =
     (if length ret < 3 then join '' a '' ret
      else join '', '' (butlast ret) @ '' a '' @ last ret)"

text \<open>
  A point in time is its number of microseconds since the epoch; a parsed timestamp is
  aware of its time zone or naive. \<open>datetime.fromisoformat\<close> is a parameter of the
  model (it raises ValueError on text that is no timestamp), and so is the clock
  \<open>now\<close>, the value of \<open>datetime.now().astimezone()\<close>, which is aware.
  Subtracting an aware datetime from a naive one raises TypeError.
\<close>

datatype datetime = Aware int | Naive int

definition total_seconds :: "int \<Rightarrow> int \<Rightarrow> rat" where
  "total_seconds until now = of_int (until - now) / 1000000"

definition formatTime ::
  "(string \<Rightarrow> pyerr + datetime) \<Rightarrow> int \<Rightarrow> json \<Rightarrow> pyerr + string" where
  "formatTime fromisoformat now subtask =
     (case getitem subtask ''input_generated'' of
        Inl e \<Rightarrow> Inl e
      | Inr g \<Rightarrow>
          if truthy g then
            (case getitem subtask ''input_valid_until'' of
               Inl e \<Rightarrow> Inl e
             | Inr (JStr until) \<Rightarrow>
                 if startswith until ''9999'' then Inr str_stale
                 else (case fromisoformat until of
                         Inl e \<Rightarrow> Inl e
                       | Inr (Naive t) \<Rightarrow> Inl TypeError
                       | Inr (Aware t) \<Rightarrow> Inr (join_ret (ret_list (total_seconds t now))))
             | Inr _ \<Rightarrow> Inl AttributeError)
          else Inr str_nevygenerovano)"

section \<open>The API client\<close>

subsection \<open>Operations\<close>

text \<open>
  The enumeration is closed, so the branches of \<open>getURL\<close> and \<open>getHTTPMethod\<close> that
  print \<open>Operace ... nenalezena\<close> and exit are never taken; they have no equation here.
\<close>

datatype APIOperation = LIST | STATUS | GET_TEST | SUBMIT | GENERATE

datatype http_method = GET | POST

fun getURL :: "APIOperation \<Rightarrow> string" where
  "getURL LIST = ''tasks/list''"
| "getURL STATUS = ''tasks/status''"
| "getURL GET_TEST = ''tasks/input''"
| "getURL SUBMIT = ''tasks/submit''"
| "getURL GENERATE = ''tasks/generate''"

fun getHTTPMethod :: "APIOperation \<Rightarrow> http_method" where
  "getHTTPMethod LIST = GET"
| "getHTTPMethod STATUS = GET"
| "getHTTPMethod GET_TEST = POST"
| "getHTTPMethod SUBMIT = POST"
| "getHTTPMethod GENERATE = POST"

subsection \<open>Requests, responses and the world\<close>

text \<open>
  A Python dict is an association list with distinct keys, in insertion order.
  \<open>dict_merge a b\<close> is \<open>{**a, **b}\<close>: an entry of \<open>b\<close> replaces the value of a key
  of \<open>a\<close> in place and is appended otherwise.
\<close>

definition dict_merge :: "('k \<times> 'v) list \<Rightarrow> ('k \<times> 'v) list \<Rightarrow> ('k \<times> 'v) list" where
  "dict_merge a b = fold (\<lambda>(k, v). AList.update k v) b a"

text \<open>A query parameter is a string or an integer; the \<open>data\<close> argument of a request
  is a dict (the default is the empty one) or a body of bytes; \<open>AnyStr\<close> is text or bytes.\<close>

datatype pval = PStr string | PInt int

datatype payload = DataDict "(string \<times> string) list" | DataBytes string

datatype anystr = Str string | Bytes string

record request =
  req_method :: http_method
  req_url :: string
  req_headers :: "(string \<times> string) list"
  req_params :: "(string \<times> pval) list"
  req_data :: payload

text \<open>
  Of a response the program reads the status code, the headers, the attribute
  \<open>text\<close> and the result of \<open>json()\<close>, which raises when the body is no JSON.
\<close>

record response =
  status_code :: int
  resp_headers :: "(string \<times> string) list"
  resp_text :: string
  resp_json :: "pyerr + json"

text \<open>
  \<open>response.headers[name]\<close>: the headers of \<open>requests\<close> compare names without regard
  to case, and a name that is absent raises KeyError (\<open>None\<close> here).
\<close>

definition lower_char :: "char \<Rightarrow> char" where
  "lower_char c = (let n = (of_char c :: nat) in if 65 \<le> n \<and> n \<le> 90 then char_of (n + 32) else c)"

definition header_get :: "(string \<times> string) list \<Rightarrow> string \<Rightarrow> string option" where
  "header_get hs name = map_of (map (\<lambda>(k, v). (map lower_char k, v)) hs) (map lower_char name)"

text \<open>
  What a run does to the outside is kept as a trace of events, in order: a line given
  to \<open>print\<close>, an HTTP request sent, a subprocess run with its arguments and the
  bytes on its standard input.
\<close>

datatype event = Printed string | Sent request | Ran "string list" string

record 'w state =
  world :: 'w
  trace :: "event list"

text \<open>A call returns a value, or leaves through \<open>sys.exit\<close>, or through an exception
  that nothing catches.\<close>

datatype 'a result = Return 'a | Exit int | Raise pyerr

text \<open>
  The libraries and the outside world are parameters: the server behind \<open>requests\<close>,
  the subprocess behind \<open>subprocess.check_output\<close> (it raises when the program
  cannot be run or exits with a status other than 0), the token file (its first line,
  stripped; \<open>None\<close> when the path does not exist), the home directory, Python's
  \<open>repr\<close> of a decoded list or dict, \<open>json.dumps\<close> with indent 4 and
  \<open>ensure_ascii=False\<close>, \<open>datetime.fromisoformat\<close>, and the clock.
\<close>

record 'w env =
  http :: "request \<Rightarrow> 'w \<Rightarrow> (pyerr + response) \<times> 'w"
  check_output :: "string list \<Rightarrow> string \<Rightarrow> 'w \<Rightarrow> (pyerr + string) \<times> 'w"
  read_token :: "string \<Rightarrow> string option"
  home :: string
  py_repr :: "json \<Rightarrow> string"
  json_dumps :: "json \<Rightarrow> string"
  fromisoformat :: "string \<Rightarrow> pyerr + datetime"
  clock :: "'w \<Rightarrow> int"

definition print :: "string \<Rightarrow> 'w state \<Rightarrow> 'w state" where
  "print s st = st\<lparr>trace := trace st @ [Printed s]\<rparr>"

text \<open>Sequencing: the second step runs on the value the first returns; an exit or an
  exception of the first ends the whole.\<close>

definition then_do ::
  "('s \<Rightarrow> 'a result \<times> 's) \<Rightarrow> ('a \<Rightarrow> 's \<Rightarrow> 'b result \<times> 's) \<Rightarrow> 's \<Rightarrow> 'b result \<times> 's" where
  "then_do m f st =
     (case m st of
        (Return x, st') \<Rightarrow> f x st'
      | (Exit n, st') \<Rightarrow> (Exit n, st')
      | (Raise e, st') \<Rightarrow> (Raise e, st'))"

definition raise_or :: "pyerr + 'a \<Rightarrow> ('a \<Rightarrow> 's \<Rightarrow> 'b result \<times> 's) \<Rightarrow> 's \<Rightarrow> 'b result \<times> 's" where
  "raise_or v f st = (case v of Inl e \<Rightarrow> (Raise e, st) | Inr x \<Rightarrow> f x st)"

text \<open>\<open>str(v)\<close> of a decoded JSON value, as an f-string inserts it.\<close>

definition py_str :: "'w env \<Rightarrow> json \<Rightarrow> string" where
  "py_str env j =
     (case j of
        JNull \<Rightarrow> ''None''
      | JBool b \<Rightarrow> (if b then ''True'' else ''False'')
      | JInt i \<Rightarrow> show_int i
      | JFloat s \<Rightarrow> s
      | JStr s \<Rightarrow> s
      | JList xs \<Rightarrow> py_repr env j
      | JObj kvs \<Rightarrow> py_repr env j)"

subsection \<open>The messages\<close>

definition str_posilam :: string where
  "str_posilam = ''Pos'' @ [CHR 0xC3, CHR 0xAD] @ ''l'' @ [CHR 0xC3, CHR 0xA1] @ ''m po'' @
     [CHR 0xC5, CHR 0xBE] @ ''adavek na: ''"

definition str_klient :: string where
  "str_klient = ''Klient se nedok'' @ [CHR 0xC3, CHR 0xA1] @ ''zal p'' @ [CHR 0xC5, CHR 0x99] @
     ''ipojit ke str'' @ [CHR 0xC3, CHR 0xA1] @ ''nk'' @ [CHR 0xC3, CHR 0xA1] @ ''m KSP''"

definition str_jsi :: string where
  "str_jsi = ''Jsi p'' @ [CHR 0xC5, CHR 0x99] @ ''ipojen k internetu?''"

definition str_neprijala :: string where
  "str_neprijala = ''Str'' @ [CHR 0xC3, CHR 0xA1] @ ''nka KSP nep'' @ [CHR 0xC5, CHR 0x99] @
     ''ijala tv'' @ [CHR 0xC5, CHR 0xAF] @ ''j po'' @ [CHR 0xC5, CHR 0xBE] @ ''adavek: ''"

definition str_chybou :: string where
  "str_chybou = ''Str'' @ [CHR 0xC3, CHR 0xA1] @ ''nka KSP odpov'' @ [CHR 0xC4, CHR 0x9B] @
     ''d'' @ [CHR 0xC4, CHR 0x9B] @ ''la chybou, kter'' @ [CHR 0xC3, CHR 0xA1] @ '' nem'' @
     [CHR 0xC3, CHR 0xA1] @ '' json odpov'' @ [CHR 0xC4, CHR 0x9B, CHR 0xC4, CHR 0x8F] @ ''!''"

definition str_poduloha :: string where
  "str_poduloha = ''Pod'' @ [CHR 0xC3, CHR 0xBA] @ ''loha ''"

definition str_nazev :: string where
  "str_nazev = ''N'' @ [CHR 0xC3, CHR 0xA1] @ ''zev '' @ [CHR 0xC3, CHR 0xBA] @ ''lohy: ''"

definition str_ziskane :: string where
  "str_ziskane = ''Z'' @ [CHR 0xC3, CHR 0xAD] @ ''skan'' @ [CHR 0xC3, CHR 0xA9] @ '' body: ''"

definition str_delka :: string where
  "str_delka = ''D'' @ [CHR 0xC3, CHR 0xA9] @ ''lka platnosti''"

definition str_vysledek :: string where
  "str_vysledek = ''V'' @ [CHR 0xC3, CHR 0xBD] @ ''sledek''"

subsection \<open>The service\<close>

record KSPApiService =
  api_url :: string
  token_path :: string
  headers :: "(string \<times> string) list"
  training_ground :: bool
  verbose :: bool

definition default_api_url :: string where
  "default_api_url = ''https://ksp.mff.cuni.cz/api/''"

definition default_token_path :: "'w env \<Rightarrow> string" where
  "default_token_path env = home env @ ''/.config/ksp-api-token''"

definition fileExists :: "'w env \<Rightarrow> string \<Rightarrow> 'w state \<Rightarrow> unit result \<times> 'w state" where
  "fileExists env name st =
     (case read_token env name of
        None \<Rightarrow> (Exit 1, print (''Soubor '' @ name @ '' neexistuje'') st)
      | Some t \<Rightarrow> (Return (), st))"

text \<open>The constructor. After \<open>fileExists\<close> has returned the file is there, so the last
  branch is never taken.\<close>

definition KSPApiService_init ::
  "'w env \<Rightarrow> string option \<Rightarrow> string option \<Rightarrow> bool \<Rightarrow> bool \<Rightarrow> 'w state \<Rightarrow>
     KSPApiService result \<times> 'w state" where
  "KSPApiService_init env api_url0 token_path0 training_ground0 verbose0 =
     (let url = (case api_url0 of None \<Rightarrow> default_api_url | Some u \<Rightarrow> u);
          path = (case token_path0 of None \<Rightarrow> default_token_path env | Some p \<Rightarrow> p)
      in then_do (fileExists env path)
           (\<lambda>u st. case read_token env path of
                      Some token \<Rightarrow>
                        (Return \<lparr>api_url = url, token_path = path,
                                 headers = [(''Authorization'', ''Bearer '' @ token)],
                                 training_ground = training_ground0, verbose = verbose0\<rparr>, st)
                    | None \<Rightarrow> (Raise OtherError, st)))"

text \<open>The request that \<open>callApi\<close> hands to \<open>requests.get\<close> or \<open>requests.post\<close>.\<close>

definition build_request ::
  "KSPApiService \<Rightarrow> APIOperation \<Rightarrow> (string \<times> string) list \<Rightarrow> (string \<times> pval) list \<Rightarrow>
     payload \<Rightarrow> request" where
  "build_request self operation extra_headers extra_params data =
     \<lparr>req_method = getHTTPMethod operation,
      req_url = api_url self @ getURL operation,
      req_headers = dict_merge (headers self) extra_headers,
      req_params = extra_params,
      req_data = data\<rparr>"

text \<open>
  \<open>callApi\<close>. Only ConnectionError is caught. On a status other than 200 the
  content type is looked up first; \<open>response.text\<close> is a string, so calling it, as the
  verbose branch does, raises TypeError before \<open>sys.exit\<close> is reached.
\<close>

definition callApi ::
  "'w env \<Rightarrow> KSPApiService \<Rightarrow> APIOperation \<Rightarrow> (string \<times> string) list \<Rightarrow>
     (string \<times> pval) list \<Rightarrow> payload \<Rightarrow> 'w state \<Rightarrow> response result \<times> 'w state" where
  "callApi env self operation extra_headers extra_params data st =
     (let req = build_request self operation extra_headers extra_params data;
          st1 = (if verbose self then print (str_posilam @ req_url req) st else st);
          (r, w) = http env req (world st1);
          st2 = st1\<lparr>world := w, trace := trace st1 @ [Sent req]\<rparr>
      in case r of
           Inl ConnectionError \<Rightarrow> (Exit 1, print str_jsi (print str_klient st2))
         | Inl e \<Rightarrow> (Raise e, st2)
         | Inr response \<Rightarrow>
             if status_code response \<noteq> 200 then
               (case header_get (resp_headers response) ''content-type'' of
                  None \<Rightarrow> (Raise (KeyError ''content-type''), st2)
                | Some ct \<Rightarrow>
                    if ct = ''application/json'' then
                      raise_or (resp_json response)
                        (\<lambda>j. raise_or (getitem j ''errorMsg'')
                           (\<lambda>m st. (Exit 1, print (str_neprijala @ py_str env m) st))) st2
                    else
                      (let st3 = print str_chybou st2
                       in if verbose self then (Raise TypeError, st3) else (Exit 1, st3)))
             else (Return response, st2))"

definition getList :: "'w env \<Rightarrow> KSPApiService \<Rightarrow> 'w state \<Rightarrow> response result \<times> 'w state" where
  "getList env self =
     (let param = (if training_ground self then [(''set'', PStr ''cviciste'')] else [])
      in callApi env self LIST [] param (DataDict []))"

definition getStatus ::
  "'w env \<Rightarrow> KSPApiService \<Rightarrow> string \<Rightarrow> 'w state \<Rightarrow> response result \<times> 'w state" where
  "getStatus env self task = callApi env self STATUS [] [(''task'', PStr task)] (DataDict [])"

definition getTest ::
  "'w env \<Rightarrow> KSPApiService \<Rightarrow> string \<Rightarrow> int \<Rightarrow> bool \<Rightarrow> 'w state \<Rightarrow>
     response result \<times> 'w state" where
  "getTest env self task subtask generate0 =
     callApi env self GET_TEST []
       [(''task'', PStr task), (''subtask'', PInt subtask),
        (''generate'', PStr (if generate0 then ''true'' else ''false''))]
       (DataDict [])"

text \<open>
  \<open>submit\<close> encodes a text content to bytes (the model holds text as its UTF-8 bytes
  already) and then calls \<open>callApi\<close> without a \<open>data\<close> argument, so the default, the
  empty dict, is what is passed on.
\<close>

definition submit ::
  "'w env \<Rightarrow> KSPApiService \<Rightarrow> string \<Rightarrow> int \<Rightarrow> anystr \<Rightarrow> 'w state \<Rightarrow>
     response result \<times> 'w state" where
  "submit env self task subtask content =
     (let content1 = (case content of Str s \<Rightarrow> Bytes s | Bytes b \<Rightarrow> Bytes b)
      in callApi env self SUBMIT [(''Content-Type'', ''text/plain'')]
           [(''task'', PStr task), (''subtask'', PInt subtask)] (DataDict []))"

definition generate ::
  "'w env \<Rightarrow> KSPApiService \<Rightarrow> string \<Rightarrow> int \<Rightarrow> 'w state \<Rightarrow> response result \<times> 'w state" where
  "generate env self task subtask =
     callApi env self GENERATE [] [(''task'', PStr task), (''subtask'', PInt subtask)]
       (DataDict [])"

section \<open>Formatters and command handlers\<close>

definition printNiceJson :: "'w env \<Rightarrow> json \<Rightarrow> 'w state \<Rightarrow> 'w state" where
  "printNiceJson env json_text st = print (json_dumps env json_text) st"

text \<open>
  Padding to a width counts characters, not bytes: a byte from 0x80 to 0xBF continues a
  character and is not counted.
\<close>

definition cp_length :: "string \<Rightarrow> nat" where
  "cp_length s = length (filter (\<lambda>c. \<not> (128 \<le> (of_char c :: nat) \<and> (of_char c :: nat) < 192)) s)"

definition ljust :: "nat \<Rightarrow> string \<Rightarrow> string" where
  "ljust n s = s @ replicate (n - cp_length s) (CHR '' '')"

text \<open>
  \<open>f'{v:<n}'\<close> on a decoded JSON value: text is padded, a number is written and
  padded, a boolean is formatted as the integer it is, and \<open>None\<close>, a list and a dict
  reject the format and raise TypeError.
\<close>

definition format_ljust :: "nat \<Rightarrow> json \<Rightarrow> pyerr + string" where
  "format_ljust n j =
     (case j of
        JStr s \<Rightarrow> Inr (ljust n s)
      | JInt i \<Rightarrow> Inr (ljust n (show_int i))
      | JFloat s \<Rightarrow> Inr (ljust n s)
      | JBool b \<Rightarrow> Inr (ljust n (if b then ''1'' else ''0''))
      | JNull \<Rightarrow> Inl TypeError
      | JList xs \<Rightarrow> Inl TypeError
      | JObj kvs \<Rightarrow> Inl TypeError)"

text \<open>
  \<open>for x in v\<close> on a decoded JSON value: the elements of a list, the keys of a dict,
  the characters of a text (here its bytes; the loop body below fails on the first one
  either way), TypeError on anything else.
\<close>

definition py_iter :: "json \<Rightarrow> pyerr + json list" where
  "py_iter j =
     (case j of
        JList xs \<Rightarrow> Inr xs
      | JObj kvs \<Rightarrow> Inr (map (\<lambda>(k, v). JStr k) kvs)
      | JStr s \<Rightarrow> Inr (map (\<lambda>c. JStr [c]) s)
      | JNull \<Rightarrow> Inl TypeError
      | JBool b \<Rightarrow> Inl TypeError
      | JInt i \<Rightarrow> Inl TypeError
      | JFloat s \<Rightarrow> Inl TypeError)"

text \<open>\<open>len(v)\<close>.\<close>

definition py_len :: "json \<Rightarrow> pyerr + int" where
  "py_len j =
     (case j of
        JList xs \<Rightarrow> Inr (int (length xs))
      | JObj kvs \<Rightarrow> Inr (int (length kvs))
      | JStr s \<Rightarrow> Inr (int (cp_length s))
      | JNull \<Rightarrow> Inl TypeError
      | JBool b \<Rightarrow> Inl TypeError
      | JInt i \<Rightarrow> Inl TypeError
      | JFloat s \<Rightarrow> Inl TypeError)"

text \<open>The loop of \<open>printTableStatus\<close>: one row for each subtask.\<close>

fun print_rows :: "'w env \<Rightarrow> json list \<Rightarrow> 'w state \<Rightarrow> unit result \<times> 'w state" where
  "print_rows env [] st = (Return (), st)"
| "print_rows env (subtask # rest) st =
     raise_or (getitem subtask ''points'') (\<lambda>p.
     raise_or (getitem subtask ''max_points'') (\<lambda>mp.
     let points = py_str env p @ ''/'' @ py_str env mp;
         verdict = (case getitem subtask ''verdict'' of Inr v \<Rightarrow> py_str env v | Inl e \<Rightarrow> [])
     in raise_or (getitem subtask ''id'') (\<lambda>i.
        raise_or (format_ljust 5 i) (\<lambda>id_str.
        raise_or (formatTime (fromisoformat env) (clock env (world st)) subtask) (\<lambda>time_str st1.
          print_rows env rest
            (print (id_str @ ''| '' @ ljust 32 time_str @ ''| '' @ ljust 8 points @ ''| '' @ verdict)
               st1)))))) st"

definition printTableStatus :: "'w env \<Rightarrow> json \<Rightarrow> 'w state \<Rightarrow> unit result \<times> 'w state" where
  "printTableStatus env json_text =
     raise_or (getitem json_text ''name'') (\<lambda>name st.
     raise_or (getitem json_text ''points'') (\<lambda>p.
     raise_or (getitem json_text ''max_points'') (\<lambda>mp st1.
       (let st2 = print (str_ziskane @ py_str env p @ ''/'' @ py_str env mp) st1;
            st3 = print (ljust 5 ''Test'' @ ''| '' @ ljust 32 str_delka @ ''| '' @ ljust 8 ''Body'' @
                         ''| '' @ str_vysledek) st2;
            st4 = print (replicate 60 (CHR ''-'')) st3
        in raise_or (getitem json_text ''subtasks'') (\<lambda>subs.
           raise_or (py_iter subs) (\<lambda>items. print_rows env items)) st4)))
       (print (str_nazev @ py_str env name) st))"

text \<open>
  The parsed command line: the subcommand with its arguments. \<open>file\<close> is what
  \<open>arguments.file.read()\<close> returns, the bytes of the file opened in binary mode.
\<close>

datatype command =
    CmdList
  | CmdStatus string
  | CmdGenerate string int
  | CmdSubmit string int string
  | CmdRun string "string list"

definition handleList :: "'w env \<Rightarrow> KSPApiService \<Rightarrow> 'w state \<Rightarrow> unit result \<times> 'w state" where
  "handleList env self =
     then_do (getList env self) (\<lambda>r.
     raise_or (resp_json r) (\<lambda>j st. (Return (), printNiceJson env j st)))"

definition handleStatus ::
  "'w env \<Rightarrow> KSPApiService \<Rightarrow> string \<Rightarrow> 'w state \<Rightarrow> unit result \<times> 'w state" where
  "handleStatus env self task =
     then_do (getStatus env self task) (\<lambda>r.
     raise_or (resp_json r) (\<lambda>j. printTableStatus env j))"

definition handleSubmit ::
  "'w env \<Rightarrow> KSPApiService \<Rightarrow> string \<Rightarrow> int \<Rightarrow> string \<Rightarrow> 'w state \<Rightarrow> unit result \<times> 'w state" where
  "handleSubmit env self task subtask file =
     (let user_output = Bytes file
      in then_do (submit env self task subtask user_output) (\<lambda>r.
         raise_or (resp_json r) (\<lambda>j st. (Return (), printNiceJson env j st))))"

definition handleGenerate ::
  "'w env \<Rightarrow> KSPApiService \<Rightarrow> string \<Rightarrow> int \<Rightarrow> 'w state \<Rightarrow> unit result \<times> 'w state" where
  "handleGenerate env self task subtask =
     then_do (getTest env self task subtask True) (\<lambda>r st. (Return (), print (resp_text r) st))"

text \<open>The line that \<open>handleRun\<close> prints for a subtask, from the decoded verdict.\<close>

definition verdict_line :: "'w env \<Rightarrow> int \<Rightarrow> json \<Rightarrow> pyerr + string" where
  "verdict_line env subtask resp =
     (case getitem resp ''verdict'' of
        Inl e \<Rightarrow> Inl e
      | Inr v \<Rightarrow>
          (case getitem resp ''points'' of
             Inl e \<Rightarrow> Inl e
           | Inr p \<Rightarrow>
               (case getitem resp ''max_points'' of
                  Inl e \<Rightarrow> Inl e
                | Inr mp \<Rightarrow>
                    Inr (str_poduloha @ show_int subtask @ '': '' @ py_str env v @ '' ('' @
                         py_str env p @ ''/'' @ py_str env mp @ ''b)''))))"

text \<open>
  \<open>run_solver\<close> is the call of \<open>subprocess.check_output\<close>: the solver gets the
  encoded input on its standard input, and its standard output is the result.
\<close>

definition run_solver ::
  "'w env \<Rightarrow> string list \<Rightarrow> string \<Rightarrow> 'w state \<Rightarrow> string result \<times> 'w state" where
  "run_solver env sol_args input st =
     (let (r, w) = check_output env sol_args input (world st);
          st1 = st\<lparr>world := w, trace := trace st @ [Ran sol_args input]\<rparr>
      in case r of Inl e \<Rightarrow> (Raise e, st1) | Inr output \<Rightarrow> (Return output, st1))"

text \<open>The body of the loop of \<open>handleRun\<close>, for one subtask.\<close>

definition run_subtask ::
  "'w env \<Rightarrow> KSPApiService \<Rightarrow> string \<Rightarrow> string list \<Rightarrow> int \<Rightarrow> 'w state \<Rightarrow>
     unit result \<times> 'w state" where
  "run_subtask env self task sol_args subtask =
     then_do (getTest env self task subtask True) (\<lambda>r.
     let input = resp_text r
     in then_do (run_solver env sol_args input) (\<lambda>output.
        then_do (submit env self task subtask (Bytes output)) (\<lambda>response.
        raise_or (resp_json response) (\<lambda>resp.
        raise_or (verdict_line env subtask resp) (\<lambda>line st. (Return (), print line st))))))"

text \<open>The loop over \<open>range(1, numberSubtasks + 1)\<close>.\<close>

fun run_loop ::
  "'w env \<Rightarrow> KSPApiService \<Rightarrow> string \<Rightarrow> string list \<Rightarrow> int list \<Rightarrow> 'w state \<Rightarrow>
     unit result \<times> 'w state" where
  "run_loop env self task sol_args [] st = (Return (), st)"
| "run_loop env self task sol_args (subtask # rest) st =
     (case run_subtask env self task sol_args subtask st of
        (Return u, st1) \<Rightarrow> run_loop env self task sol_args rest st1
      | (Exit n, st1) \<Rightarrow> (Exit n, st1)
      | (Raise e, st1) \<Rightarrow> (Raise e, st1))"

definition handleRun ::
  "'w env \<Rightarrow> KSPApiService \<Rightarrow> string \<Rightarrow> string list \<Rightarrow> 'w state \<Rightarrow> unit result \<times> 'w state" where
  "handleRun env self task sol_args =
     then_do (getStatus env self task) (\<lambda>r.
     raise_or (resp_json r) (\<lambda>j.
     raise_or (getitem j ''subtasks'') (\<lambda>subs.
     raise_or (py_len subs) (\<lambda>numberSubtasks.
       run_loop env self task sol_args [1..numberSubtasks]))))"

text \<open>The table \<open>operations\<close>: the handler of each subcommand.\<close>

fun operations :: "'w env \<Rightarrow> KSPApiService \<Rightarrow> command \<Rightarrow> 'w state \<Rightarrow> unit result \<times> 'w state" where
  "operations env self CmdList = handleList env self"
| "operations env self (CmdStatus task) = handleStatus env self task"
| "operations env self (CmdSubmit task subtask file) = handleSubmit env self task subtask file"
| "operations env self (CmdGenerate task subtask) = handleGenerate env self task subtask"
| "operations env self (CmdRun task sol_args) = handleRun env self task sol_args"

text \<open>The requests of a trace, in the order they were sent.\<close>

fun sent_requests :: "event list \<Rightarrow> request list" where
  "sent_requests [] = []"
| "sent_requests (Sent r # es) = r # sent_requests es"
| "sent_requests (e # es) = sent_requests es"

text \<open>
  The events of one call of \<open>callApi\<close> up to the answer: the line of the verbose mode,
  if it is on, and the request.
\<close>

definition call_events :: "KSPApiService \<Rightarrow> request \<Rightarrow> event list" where
  "call_events self req =
     (if verbose self then [Printed (str_posilam @ req_url req)] else []) @ [Sent req]"


definition getTest_request :: "KSPApiService \<Rightarrow> string \<Rightarrow> int \<Rightarrow> request" where
  "getTest_request self task subtask =
     build_request self GET_TEST []
       [(''task'', PStr task), (''subtask'', PInt subtask), (''generate'', PStr ''true'')]
       (DataDict [])"






text \<open>
  \<open>extends P st st'\<close>: the trace of \<open>st'\<close> has the requests of \<open>st\<close> and after them
  only requests for which \<open>P\<close> holds.
\<close>

definition extends :: "(request \<Rightarrow> bool) \<Rightarrow> 'w state \<Rightarrow> 'w state \<Rightarrow> bool" where
  "extends P st st' =
     (\<exists>new. sent_requests (trace st') = sent_requests (trace st) @ new \<and> list_all P new)"

text \<open>A request that does not go to the address of the operation \<open>GENERATE\<close>.\<close>

definition not_generate :: "KSPApiService \<Rightarrow> request \<Rightarrow> bool" where
  "not_generate self q = (req_url q \<noteq> api_url self @ getURL GENERATE)"

section \<open>Concrete inputs\<close>

text \<open>
  Inputs at which the theorems below are evaluated. \<open>parse_fixed t\<close> stands for a
  \<open>fromisoformat\<close> that reads the timestamp at hand as the aware instant \<open>t\<close>.
\<close>

definition parse_fixed :: "int \<Rightarrow> string \<Rightarrow> pyerr + datetime" where
  "parse_fixed t s = Inr (Aware t)"

definition st_fresh :: json where
  "st_fresh = JObj [(''id'', JInt 1), (''input_generated'', JBool False)]"

definition st_forever :: json where
  "st_forever = JObj [(''id'', JInt 1), (''input_generated'', JBool True),
     (''input_valid_until'', JStr ''9999-12-31T23:59:59+00:00'')]"

definition st_timed :: json where
  "st_timed = JObj [(''id'', JInt 1), (''input_generated'', JBool True),
     (''input_valid_until'', JStr ''2021-03-01T12:00:00+01:00'')]"

text \<open>
  A service as the constructor builds it, a server that answers every request with
  status 200, a solver, and an initial state. The world is the number of requests
  answered so far.
\<close>

definition resp_ok :: "string \<Rightarrow> pyerr + json \<Rightarrow> response" where
  "resp_ok txt j =
     \<lparr>status_code = 200, resp_headers = [(''Content-Type'', ''application/json'')],
      resp_text = txt, resp_json = j\<rparr>"

definition resp_error :: "string \<Rightarrow> response" where
  "resp_error msg =
     \<lparr>status_code = 400, resp_headers = [(''Content-Type'', ''application/json'')],
      resp_text = [], resp_json = Inr (JObj [(''errorMsg'', JStr msg)])\<rparr>"

definition resp_html :: response where
  "resp_html =
     \<lparr>status_code = 500, resp_headers = [(''Content-Type'', ''text/html'')],
      resp_text = ''<h1>Server Error</h1>'', resp_json = Inl JSONDecodeError\<rparr>"

definition resp_bare :: response where
  "resp_bare =
     \<lparr>status_code = 503, resp_headers = [],
      resp_text = ''Service Unavailable'', resp_json = Inl JSONDecodeError\<rparr>"

definition subtasks3 :: "json list" where
  "subtasks3 =
     [JObj [(''id'', JInt 1), (''input_generated'', JBool False), (''points'', JInt 0),
            (''max_points'', JInt 10)],
      JObj [(''id'', JInt 2), (''input_generated'', JBool False), (''points'', JInt 0),
            (''max_points'', JInt 10)],
      JObj [(''id'', JInt 3), (''input_generated'', JBool False), (''points'', JInt 0),
            (''max_points'', JInt 10)]]"

definition status3 :: json where
  "status3 = JObj [(''name'', JStr ''32-Z4-1''), (''points'', JInt 0), (''max_points'', JInt 30),
     (''subtasks'', JList subtasks3)]"

definition verdict_ok :: json where
  "verdict_ok = JObj [(''verdict'', JStr ''OK''), (''points'', JInt 10), (''max_points'', JInt 10)]"

definition answer :: "request \<Rightarrow> response" where
  "answer req =
     (if req_url req = default_api_url @ ''tasks/status'' then resp_ok [] (Inr status3)
      else if req_url req = default_api_url @ ''tasks/input'' then resp_ok ''5 7'' (Inl JSONDecodeError)
      else if req_url req = default_api_url @ ''tasks/submit'' then resp_ok [] (Inr verdict_ok)
      else resp_ok [] (Inr (JList [])))"

definition server :: "request \<Rightarrow> nat \<Rightarrow> (pyerr + response) \<times> nat" where
  "server req n = (Inr (answer req), Suc n)"

text \<open>A server that refuses the input of subtask 2 and answers as \<open>server\<close> otherwise.\<close>

definition server_refusing :: "request \<Rightarrow> nat \<Rightarrow> (pyerr + response) \<times> nat" where
  "server_refusing req n =
     (if req_url req = default_api_url @ ''tasks/input'' \<and>
         map_of (req_params req) ''subtask'' = Some (PInt 2)
      then (Inr (resp_error ''No such subtask''), Suc n)
      else server req n)"

definition server_html :: "request \<Rightarrow> nat \<Rightarrow> (pyerr + response) \<times> nat" where
  "server_html req n = (Inr resp_html, Suc n)"

definition server_bare :: "request \<Rightarrow> nat \<Rightarrow> (pyerr + response) \<times> nat" where
  "server_bare req n = (Inr resp_bare, Suc n)"

definition solver :: "string list \<Rightarrow> string \<Rightarrow> nat \<Rightarrow> (pyerr + string) \<times> nat" where
  "solver sol_args input n = (Inr ''12'', n)"

definition token_file :: "string \<Rightarrow> string option" where
  "token_file path = (if path = ''/home/u/.config/ksp-api-token'' then Some ''secret'' else None)"

definition repr_stub :: "json \<Rightarrow> string" where
  "repr_stub j = ''[...]''"

definition clock0 :: "nat \<Rightarrow> int" where
  "clock0 n = 0"

definition env_with :: "(request \<Rightarrow> nat \<Rightarrow> (pyerr + response) \<times> nat) \<Rightarrow> nat env" where
  "env_with srv =
     \<lparr>http = srv, check_output = solver, read_token = token_file, home = ''/home/u'',
      py_repr = repr_stub, json_dumps = repr_stub, fromisoformat = parse_fixed 0,
      clock = clock0\<rparr>"

definition service :: "bool \<Rightarrow> bool \<Rightarrow> KSPApiService" where
  "service training_ground0 verbose0 =
     \<lparr>api_url = default_api_url, token_path = ''/home/u/.config/ksp-api-token'',
      headers = [(''Authorization'', ''Bearer secret'')],
      training_ground = training_ground0, verbose = verbose0\<rparr>"

definition st_init :: "nat state" where
  "st_init = \<lparr>world = 0, trace = []\<rparr>"

section \<open>Properties of the time-remaining formatter\<close>

subsection \<open>Auxiliary facts\<close>

lemma show_nat_not_Nil: "show_nat n \<noteq> []"
  by (subst show_nat.simps) simp

lemma show_int_not_Nil: "show_int i \<noteq> []"
  by (simp add: show_int_def show_nat_not_Nil)


lemma czechTime_Nil_iff: "czechTime v a b c = [] \<longleftrightarrow> py_round v = 0"
  by (simp add: czechTime_def Let_def show_int_not_Nil)

lemma py_round_of_int: "py_round (of_int n) = n"
  by (simp add: py_round_def Let_def)

lemma py_round_nonneg: "0 \<le> x \<Longrightarrow> 0 \<le> py_round x"
  by (auto simp add: py_round_def Let_def)

lemma py_divmod_snd_bounds:
  assumes "0 < w"
  shows "0 \<le> snd (py_divmod x w)" and "snd (py_divmod x w) < w"
proof -
  have a: "of_int (floor (x / w)) \<le> x / w" by (rule of_int_floor_le)
  have b: "x / w < of_int (floor (x / w)) + 1" by linarith
  from assms a have "of_int (floor (x / w)) * w \<le> x"
    by (rule pos_le_divide_eq [THEN iffD1])
  then show "0 \<le> snd (py_divmod x w)" by (simp add: py_divmod_def)
  from assms b have "x < (of_int (floor (x / w)) + 1) * w"
    by (rule pos_divide_less_eq [THEN iffD1])
  then show "snd (py_divmod x w) < w" by (simp add: py_divmod_def algebra_simps)
qed

lemma ret_list_nonzero:
  "ret_list secs =
     (case components secs of (d, h, m, s) \<Rightarrow>
        map (\<lambda>(c, f1, f2, f3). czechTime c f1 f2 f3)
          (filter (\<lambda>(c, f1, f2, f3). py_round c \<noteq> 0)
             [(d, ''den'', ''dny'', str_dnu), (h, ''hodina'', ''hodiny'', ''hodin''),
              (m, ''minuta'', ''minuty'', ''minut''), (s, ''sekunda'', ''sekundy'', ''sekund'')]))"
  by (simp add: ret_list_def Let_def czechTime_Nil_iff split: prod.splits)

lemma join_ret_small:
  "join_ret [] = []" "join_ret [a] = a" "join_ret [a, b] = a @ '' a '' @ b"
  "join_ret [a, b, c] = a @ '', '' @ b @ '' a '' @ c"
  "join_ret [a, b, c, d] = a @ '', '' @ b @ '', '' @ c @ '' a '' @ d"
  by (simp_all add: join_ret_def)

lemma ret_list_90: "ret_list 90 = [''1 minuta'', ''30 sekund'']"
  by code_simp

lemma formatTime_generated:
  assumes "getitem st ''input_generated'' = Inr g" "truthy g"
    "getitem st ''input_valid_until'' = Inr (JStr u)" "\<not> startswith u ''9999''"
    "fi u = Inr (Aware t)"
  shows "formatTime fi now st = Inr (join_ret (ret_list (total_seconds t now)))"
  using assms by (simp add: formatTime_def)

lemma join_Cons_prefix: "\<exists>r. join sep (x # xs) = x @ r"
  by (cases xs) auto

lemma join_ret_Cons_prefix: "\<exists>r. join_ret (x # xs) = x @ r"
proof (cases "length (x # xs) < 3")
  case True
  then show ?thesis using join_Cons_prefix [of "'' a ''" x xs] by (simp add: join_ret_def)
next
  case False
  then have "xs \<noteq> []" by auto
  then have "butlast (x # xs) = x # butlast xs" by simp
  with False show ?thesis
    using join_Cons_prefix [of "'', ''" x "butlast xs"] by (auto simp add: join_ret_def)
qed

text \<open>
  A duration that is negative: floor division puts the whole sign into the day
  component, and the three remainders stay within their usual ranges.
\<close>

lemma components_past:
  assumes "secs < 0"
  shows "\<exists>d h m s. components secs = (of_int d, h, m, s) \<and> d \<le> - 1 \<and>
           0 \<le> h \<and> h < 24 \<and> 0 \<le> m \<and> m < 60 \<and> 0 \<le> s \<and> s < 60"
proof -
  define d where "d = floor (secs / (60 * 60 * 24))"
  define hours0 where "hours0 = snd (py_divmod secs (60 * 60 * 24))"
  define h where "h = fst (py_divmod hours0 (60 * 60))"
  define minutes0 where "minutes0 = snd (py_divmod hours0 (60 * 60))"
  define m where "m = fst (py_divmod minutes0 60)"
  define s where "s = snd (py_divmod minutes0 60)"
  have c: "components secs = (of_int d, h, m, s)"
    by (simp add: components_def d_def hours0_def h_def minutes0_def m_def s_def
        py_divmod_def Let_def)
  from assms have "secs / (60 * 60 * 24) < 0" by simp
  then have "floor (secs / (60 * 60 * 24)) < 0" by (simp only: floor_less_zero)
  then have dn: "d \<le> - 1" unfolding d_def by linarith
  have h0: "0 \<le> hours0" "hours0 < 60 * 60 * 24"
    unfolding hours0_def by (rule py_divmod_snd_bounds, simp)+
  have hb: "0 \<le> h" "h < 24"
  proof -
    have "0 \<le> hours0 / (60 * 60)" using h0 by simp
    then show "0 \<le> h" by (simp add: h_def py_divmod_def)
    have "hours0 / (60 * 60) < 24" using h0 by simp
    then have "floor (hours0 / (60 * 60)) < 24" by (simp add: floor_less_iff)
    then show "h < 24" by (simp add: h_def py_divmod_def)
  qed
  have m0: "0 \<le> minutes0" "minutes0 < 60 * 60"
    unfolding minutes0_def by (rule py_divmod_snd_bounds, simp)+
  have mb: "0 \<le> m" "m < 60"
  proof -
    have "0 \<le> minutes0 / 60" using m0 by simp
    then show "0 \<le> m" by (simp add: m_def py_divmod_def)
    have "minutes0 / 60 < 60" using m0 by simp
    then have "floor (minutes0 / 60) < 60" by (simp add: floor_less_iff)
    then show "m < 60" by (simp add: m_def py_divmod_def)
  qed
  have sb: "0 \<le> s" "s < 60"
    unfolding s_def by (rule py_divmod_snd_bounds, simp)+
  from c dn hb mb sb show ?thesis by blast
qed

lemma czechTime_negative:
  assumes "d \<le> - 1"
  shows "czechTime (of_int d) f1 f2 f3 = CHR ''-'' # show_nat (nat (- d)) @ '' '' @ f2"
  using assms by (simp add: czechTime_def py_round_of_int show_int_def)

subsection \<open>The cases of the formatter\<close>

text \<open>
  Claim C6. The formatter returns the literal text \<open>str_nevygenerovano\<close> (not
  generated) for a subtask whose \<open>input_generated\<close> is false, and the literal text
  \<open>str_stale\<close> (forever) for a generated subtask whose expiry begins with the year
  9999. For a generated subtask that expires
  exactly 90 seconds (90000000 microseconds) after the current instant it returns
  \<open>1 minuta a 30 sekund\<close>: the singular of minute, the plural of second, no day and no
  hour. In general the result joins the texts of the components whose rounded value is
  not zero: nothing for none, the text itself for one, \<open>x a y\<close> for two, and commas
  with \<open>a\<close> before the last for three and for four.
\<close>

theorem formatTime_cases:
  "(getitem st0 ''input_generated'' = Inr g0 \<and> \<not> truthy g0 \<longrightarrow>
      formatTime fi now st0 = Inr str_nevygenerovano) \<and>
   (getitem st1 ''input_generated'' = Inr g1 \<and> truthy g1 \<and>
    getitem st1 ''input_valid_until'' = Inr (JStr u1) \<and> startswith u1 ''9999'' \<longrightarrow>
      formatTime fi now st1 = Inr str_stale) \<and>
   (getitem st2 ''input_generated'' = Inr g2 \<and> truthy g2 \<and>
    getitem st2 ''input_valid_until'' = Inr (JStr u2) \<and> \<not> startswith u2 ''9999'' \<and>
    fi u2 = Inr (Aware t2) \<longrightarrow>
      (t2 - now = 90 * 1000000 \<longrightarrow> formatTime fi now st2 = Inr ''1 minuta a 30 sekund'') \<and>
      formatTime fi now st2 = Inr (join_ret (ret_list (total_seconds t2 now))) \<and>
      ret_list (total_seconds t2 now) =
        (case components (total_seconds t2 now) of (d, h, m, s) \<Rightarrow>
           map (\<lambda>(c, f1, f2, f3). czechTime c f1 f2 f3)
             (filter (\<lambda>(c, f1, f2, f3). py_round c \<noteq> 0)
                [(d, ''den'', ''dny'', str_dnu), (h, ''hodina'', ''hodiny'', ''hodin''),
                 (m, ''minuta'', ''minuty'', ''minut''),
                 (s, ''sekunda'', ''sekundy'', ''sekund'')]))) \<and>
   join_ret [] = [] \<and> join_ret [a] = a \<and> join_ret [a, b] = a @ '' a '' @ b \<and>
   join_ret [a, b, c] = a @ '', '' @ b @ '' a '' @ c \<and>
   join_ret [a, b, c, d] = a @ '', '' @ b @ '', '' @ c @ '' a '' @ d"
proof -
  have p0: "getitem st0 ''input_generated'' = Inr g0 \<and> \<not> truthy g0 \<longrightarrow>
      formatTime fi now st0 = Inr str_nevygenerovano"
    by (simp add: formatTime_def)
  have p1: "getitem st1 ''input_generated'' = Inr g1 \<and> truthy g1 \<and>
    getitem st1 ''input_valid_until'' = Inr (JStr u1) \<and> startswith u1 ''9999'' \<longrightarrow>
      formatTime fi now st1 = Inr str_stale"
    by (simp add: formatTime_def)
  have p2: "formatTime fi now st2 = Inr ''1 minuta a 30 sekund''"
    if h: "getitem st2 ''input_generated'' = Inr g2 \<and> truthy g2 \<and>
    getitem st2 ''input_valid_until'' = Inr (JStr u2) \<and> \<not> startswith u2 ''9999'' \<and>
    fi u2 = Inr (Aware t2)" and e: "t2 - now = 90 * 1000000"
  proof -
    have "total_seconds t2 now = 90" using e by (simp add: total_seconds_def)
    with h show ?thesis
      by (simp add: formatTime_generated ret_list_90 join_ret_small)
  qed
  from p0 p1 p2 show ?thesis
    by (simp add: formatTime_generated join_ret_small ret_list_nonzero)
qed

text \<open>The three cases at concrete subtasks, with the clock 90 seconds before expiry.\<close>

theorem formatTime_cases_witness:
  "formatTime (parse_fixed 90000000) 0 st_fresh = Inr str_nevygenerovano \<and>
   formatTime (parse_fixed 90000000) 0 st_forever = Inr str_stale \<and>
   formatTime (parse_fixed 90000000) 0 st_timed = Inr ''1 minuta a 30 sekund'' \<and>
   ret_list (total_seconds 90000000 0) = [''1 minuta'', ''30 sekund'']"
proof -
  note t = formatTime_cases [of st_fresh "JBool False" "parse_fixed 90000000" 0
      st_forever "JBool True" "''9999-12-31T23:59:59+00:00''"
      st_timed "JBool True" "''2021-03-01T12:00:00+01:00''" 90000000]
  have g0: "getitem st_fresh ''input_generated'' = Inr (JBool False) \<and> \<not> truthy (JBool False)"
    by (simp add: st_fresh_def)
  have g1: "getitem st_forever ''input_generated'' = Inr (JBool True) \<and> truthy (JBool True) \<and>
    getitem st_forever ''input_valid_until'' = Inr (JStr ''9999-12-31T23:59:59+00:00'') \<and>
    startswith ''9999-12-31T23:59:59+00:00'' ''9999''"
    by (simp add: st_forever_def startswith_def)
  have g2: "getitem st_timed ''input_generated'' = Inr (JBool True) \<and> truthy (JBool True) \<and>
    getitem st_timed ''input_valid_until'' = Inr (JStr ''2021-03-01T12:00:00+01:00'') \<and>
    \<not> startswith ''2021-03-01T12:00:00+01:00'' ''9999'' \<and>
    parse_fixed 90000000 ''2021-03-01T12:00:00+01:00'' = Inr (Aware 90000000)"
    by (simp add: st_timed_def startswith_def parse_fixed_def)
  have e: "(90000000::int) - 0 = 90 * 1000000" by simp
  have r: "total_seconds 90000000 0 = 90" by (simp add: total_seconds_def)
  from t g0 g1 g2 e show ?thesis
    by (simp add: r ret_list_90)
qed

subsection \<open>The three forms of a unit\<close>



subsection \<open>An expiry that is already past\<close>

text \<open>
  Claim C8 says that for an expiry already past the duration is floored to zero, so
  that no negative component is shown. The code has no such floor. With the clock 90
  seconds after the expiry the three \<open>divmod\<close> calls give -1 day, 23 hours, 58 minutes
  and 30 seconds, and the result begins with \<open>-1 dny\<close>.
\<close>

theorem formatTime_past_counterexample:
  "formatTime (parse_fixed 0) 90000000 st_timed = Inr ''-1 dny, 23 hodin, 58 minut a 30 sekund'' \<and>
   components (total_seconds 0 90000000) = (- 1, 23, 58, 30)"
  by code_simp

text \<open>
  Claim C8, as the code has it. For a generated subtask whose expiry is before the
  current instant (and does not begin with 9999) the day component is a negative
  integer, and the result begins with that component, minus sign included, in the
  second form \<open>dny\<close>; the hour, minute and second components are never negative.
\<close>

theorem formatTime_past:
  assumes "getitem st ''input_generated'' = Inr g" and "truthy g"
    and "getitem st ''input_valid_until'' = Inr (JStr u)" and "\<not> startswith u ''9999''"
    and "fi u = Inr (Aware t)" and "t < now"
  shows "\<exists>d h m s rest.
           components (total_seconds t now) = (of_int d, h, m, s) \<and> d \<le> - 1 \<and>
           0 \<le> py_round h \<and> 0 \<le> py_round m \<and> 0 \<le> py_round s \<and>
           formatTime fi now st = Inr (CHR ''-'' # show_nat (nat (- d)) @ '' dny'' @ rest)"
proof -
  from \<open>t < now\<close> have neg: "total_seconds t now < 0"
    by (simp add: total_seconds_def)
  from components_past [OF neg] obtain d h m s where
    c: "components (total_seconds t now) = (of_int d, h, m, s)" and d: "d \<le> - 1"
    and b: "0 \<le> h" "0 \<le> m" "0 \<le> s" by blast
  have "\<exists>xs. ret_list (total_seconds t now) = (CHR ''-'' # show_nat (nat (- d)) @ '' dny'') # xs"
    using c d by (simp add: ret_list_def Let_def czechTime_negative)
  then obtain xs where
    "ret_list (total_seconds t now) = (CHR ''-'' # show_nat (nat (- d)) @ '' dny'') # xs" ..
  with join_ret_Cons_prefix [of "CHR ''-'' # show_nat (nat (- d)) @ '' dny''" xs]
  obtain rest where
    "join_ret (ret_list (total_seconds t now)) = CHR ''-'' # show_nat (nat (- d)) @ '' dny'' @ rest"
    by auto
  with assms have "formatTime fi now st = Inr (CHR ''-'' # show_nat (nat (- d)) @ '' dny'' @ rest)"
    by (simp add: formatTime_generated)
  with c d b show ?thesis by (blast intro: py_round_nonneg)
qed

text \<open>The same subtask, one day and a half after its expiry.\<close>

theorem formatTime_past_witness:
  "getitem st_timed ''input_generated'' = Inr (JBool True) \<and> truthy (JBool True) \<and>
   getitem st_timed ''input_valid_until'' = Inr (JStr ''2021-03-01T12:00:00+01:00'') \<and>
   \<not> startswith ''2021-03-01T12:00:00+01:00'' ''9999'' \<and>
   parse_fixed 0 ''2021-03-01T12:00:00+01:00'' = Inr (Aware 0) \<and> (0::int) < 129600000000 \<and>
   (\<exists>d h m s rest.
      components (total_seconds 0 129600000000) = (of_int d, h, m, s) \<and> d \<le> - 1 \<and>
      0 \<le> py_round h \<and> 0 \<le> py_round m \<and> 0 \<le> py_round s \<and>
      formatTime (parse_fixed 0) 129600000000 st_timed =
        Inr (CHR ''-'' # show_nat (nat (- d)) @ '' dny'' @ rest))"
proof -
  have a1: "getitem st_timed ''input_generated'' = Inr (JBool True)"
    by (simp add: st_timed_def)
  have a2: "truthy (JBool True)" by simp
  have a3: "getitem st_timed ''input_valid_until'' = Inr (JStr ''2021-03-01T12:00:00+01:00'')"
    by (simp add: st_timed_def)
  have a4: "\<not> startswith ''2021-03-01T12:00:00+01:00'' ''9999''"
    by (simp add: startswith_def)
  have a5: "parse_fixed 0 ''2021-03-01T12:00:00+01:00'' = Inr (Aware 0)"
    by (simp add: parse_fixed_def)
  have a6: "(0::int) < 129600000000" by simp
  note t = formatTime_past [of st_timed "JBool True" "''2021-03-01T12:00:00+01:00''"
      "parse_fixed 0" 0 129600000000]
  from t [OF a1 a2 a3 a4 a5 a6] a1 a2 a3 a4 a5 a6 show ?thesis
    by blast
qed

section \<open>Properties of the API client\<close>

lemma sent_requests_append: "sent_requests (xs @ ys) = sent_requests xs @ sent_requests ys"
  by (induction xs rule: sent_requests.induct) simp_all


lemma callApi_sent:
  "sent_requests (trace (snd (callApi env self operation eh ep d st))) =
     sent_requests (trace st) @ [build_request self operation eh ep d]"
  by (auto simp add: callApi_def Let_def print_def raise_or_def sent_requests_append
      split: prod.splits sum.splits pyerr.splits option.splits)


lemma dict_merge_Nil: "dict_merge a [] = a"
  by (simp add: dict_merge_def)

lemma init_Return:
  assumes "KSPApiService_init env a p tg vb st0 = (Return self, st1)"
  shows "\<exists>token. read_token env (token_path self) = Some token \<and>
           headers self = [(''Authorization'', ''Bearer '' @ token)]"
  using assms
  by (auto simp add: KSPApiService_init_def Let_def then_do_def fileExists_def
      split: option.splits prod.splits result.splits)

lemma submit_content_unused:
  "submit env self task subtask content = submit env self task subtask content'"
  by (simp add: submit_def Let_def)

lemma submit_data_empty:
  "map req_data (sent_requests (trace (snd (submit env self task subtask content st)))) =
     map req_data (sent_requests (trace st)) @ [DataDict []]"
  by (simp add: submit_def Let_def callApi_sent build_request_def)

text \<open>
  Claim C1 says that the request of \<open>submit\<close> carries the content as its body. The code
  encodes the content and then leaves it out of the call: whatever the content, the
  \<open>data\<close> of the request is the empty dict. The request sent for the content \<open>42\<close>:
\<close>

theorem submit_drops_content:
  "sent_requests (trace (snd (submit (env_with server) (service False False) ''32-Z4-1'' 1
       (Str ''42'') st_init))) =
     [\<lparr>req_method = POST, req_url = ''https://ksp.mff.cuni.cz/api/tasks/submit'',
       req_headers = [(''Authorization'', ''Bearer secret''), (''Content-Type'', ''text/plain'')],
       req_params = [(''task'', PStr ''32-Z4-1''), (''subtask'', PInt 1)],
       req_data = DataDict []\<rparr>]"
  by (simp add: submit_def Let_def callApi_sent build_request_def service_def st_init_def
      dict_merge_def default_api_url_def)

text \<open>
  Claim C4. For a service that the constructor returned, with the token read from its
  token file, each of the five operations sends exactly one request: list and status
  with GET, get-test, submit and generate with POST, to the address of the service
  followed by \<open>tasks/list\<close>, \<open>tasks/status\<close>, \<open>tasks/input\<close>, \<open>tasks/submit\<close>
  and \<open>tasks/generate\<close>, and with the header \<open>Authorization\<close> set to \<open>Bearer\<close>
  and the token.
\<close>

theorem operations_method_path_token:
  assumes "KSPApiService_init env a p tg vb st0 = (Return self, st1)"
  shows "\<exists>token. read_token env (token_path self) = Some token \<and>
     (\<exists>r. sent_requests (trace (snd (getList env self st))) = sent_requests (trace st) @ [r] \<and>
          req_method r = GET \<and> req_url r = api_url self @ ''tasks/list'' \<and>
          map_of (req_headers r) ''Authorization'' = Some (''Bearer '' @ token)) \<and>
     (\<exists>r. sent_requests (trace (snd (getStatus env self task st))) = sent_requests (trace st) @ [r] \<and>
          req_method r = GET \<and> req_url r = api_url self @ ''tasks/status'' \<and>
          map_of (req_headers r) ''Authorization'' = Some (''Bearer '' @ token)) \<and>
     (\<exists>r. sent_requests (trace (snd (getTest env self task subtask gen st))) =
            sent_requests (trace st) @ [r] \<and>
          req_method r = POST \<and> req_url r = api_url self @ ''tasks/input'' \<and>
          map_of (req_headers r) ''Authorization'' = Some (''Bearer '' @ token)) \<and>
     (\<exists>r. sent_requests (trace (snd (submit env self task subtask content st))) =
            sent_requests (trace st) @ [r] \<and>
          req_method r = POST \<and> req_url r = api_url self @ ''tasks/submit'' \<and>
          map_of (req_headers r) ''Authorization'' = Some (''Bearer '' @ token)) \<and>
     (\<exists>r. sent_requests (trace (snd (generate env self task subtask st))) =
            sent_requests (trace st) @ [r] \<and>
          req_method r = POST \<and> req_url r = api_url self @ ''tasks/generate'' \<and>
          map_of (req_headers r) ''Authorization'' = Some (''Bearer '' @ token))"
proof -
  from init_Return [OF assms] obtain token where
    t: "read_token env (token_path self) = Some token"
    and h: "headers self = [(''Authorization'', ''Bearer '' @ token)]" by blast
  have l: "\<exists>r. sent_requests (trace (snd (getList env self st))) = sent_requests (trace st) @ [r] \<and>
          req_method r = GET \<and> req_url r = api_url self @ ''tasks/list'' \<and>
          map_of (req_headers r) ''Authorization'' = Some (''Bearer '' @ token)"
    by (simp add: getList_def Let_def callApi_sent build_request_def h dict_merge_def)
  have s: "\<exists>r. sent_requests (trace (snd (getStatus env self task st))) =
            sent_requests (trace st) @ [r] \<and>
          req_method r = GET \<and> req_url r = api_url self @ ''tasks/status'' \<and>
          map_of (req_headers r) ''Authorization'' = Some (''Bearer '' @ token)"
    by (simp add: getStatus_def callApi_sent build_request_def h dict_merge_def)
  have i: "\<exists>r. sent_requests (trace (snd (getTest env self task subtask gen st))) =
            sent_requests (trace st) @ [r] \<and>
          req_method r = POST \<and> req_url r = api_url self @ ''tasks/input'' \<and>
          map_of (req_headers r) ''Authorization'' = Some (''Bearer '' @ token)"
    by (simp add: getTest_def callApi_sent build_request_def h dict_merge_def)
  have u: "\<exists>r. sent_requests (trace (snd (submit env self task subtask content st))) =
            sent_requests (trace st) @ [r] \<and>
          req_method r = POST \<and> req_url r = api_url self @ ''tasks/submit'' \<and>
          map_of (req_headers r) ''Authorization'' = Some (''Bearer '' @ token)"
    by (simp add: submit_def Let_def callApi_sent build_request_def h dict_merge_def)
  have g: "\<exists>r. sent_requests (trace (snd (generate env self task subtask st))) =
            sent_requests (trace st) @ [r] \<and>
          req_method r = POST \<and> req_url r = api_url self @ ''tasks/generate'' \<and>
          map_of (req_headers r) ''Authorization'' = Some (''Bearer '' @ token)"
    by (simp add: generate_def callApi_sent build_request_def h dict_merge_def)
  from t l s i u g show ?thesis by blast
qed

lemma init_example:
  "KSPApiService_init (env_with server) None None False False st_init =
     (Return (service False False), st_init)"
  by (simp add: KSPApiService_init_def Let_def then_do_def fileExists_def env_with_def
      token_file_def default_token_path_def service_def)

text \<open>The service built from the token file of the example.\<close>

theorem operations_method_path_token_witness:
  "KSPApiService_init (env_with server) None None False False st_init =
     (Return (service False False), st_init) \<and>
   (\<exists>token. read_token (env_with server) (token_path (service False False)) = Some token \<and>
     (\<exists>r. sent_requests (trace (snd (getList (env_with server) (service False False) st_init))) =
            sent_requests (trace st_init) @ [r] \<and>
          req_method r = GET \<and> req_url r = api_url (service False False) @ ''tasks/list'' \<and>
          map_of (req_headers r) ''Authorization'' = Some (''Bearer '' @ token)) \<and>
     (\<exists>r. sent_requests (trace (snd (getStatus (env_with server) (service False False)
              ''32-Z4-1'' st_init))) = sent_requests (trace st_init) @ [r] \<and>
          req_method r = GET \<and> req_url r = api_url (service False False) @ ''tasks/status'' \<and>
          map_of (req_headers r) ''Authorization'' = Some (''Bearer '' @ token)) \<and>
     (\<exists>r. sent_requests (trace (snd (getTest (env_with server) (service False False)
              ''32-Z4-1'' 1 True st_init))) = sent_requests (trace st_init) @ [r] \<and>
          req_method r = POST \<and> req_url r = api_url (service False False) @ ''tasks/input'' \<and>
          map_of (req_headers r) ''Authorization'' = Some (''Bearer '' @ token)) \<and>
     (\<exists>r. sent_requests (trace (snd (submit (env_with server) (service False False)
              ''32-Z4-1'' 1 (Str ''42'') st_init))) = sent_requests (trace st_init) @ [r] \<and>
          req_method r = POST \<and> req_url r = api_url (service False False) @ ''tasks/submit'' \<and>
          map_of (req_headers r) ''Authorization'' = Some (''Bearer '' @ token)) \<and>
     (\<exists>r. sent_requests (trace (snd (generate (env_with server) (service False False)
              ''32-Z4-1'' 1 st_init))) = sent_requests (trace st_init) @ [r] \<and>
          req_method r = POST \<and> req_url r = api_url (service False False) @ ''tasks/generate'' \<and>
          map_of (req_headers r) ''Authorization'' = Some (''Bearer '' @ token)))"
  using init_example
    operations_method_path_token [OF init_example, of st_init "''32-Z4-1''" 1 True "Str ''42''"]
  by blast

text \<open>
  Claim C5. The request of \<open>getList\<close> has the one parameter \<open>set = cviciste\<close> when
  the training-ground mode of the service is on and no parameter when it is off; so
  the parameter \<open>set\<close> is there if and only if the mode is on.
\<close>

theorem getList_training_ground_param:
  "\<exists>r. sent_requests (trace (snd (getList env self st))) = sent_requests (trace st) @ [r] \<and>
        req_params r = (if training_ground self then [(''set'', PStr ''cviciste'')] else []) \<and>
        (map_of (req_params r) ''set'' \<noteq> None) = training_ground self"
  by (simp add: getList_def Let_def callApi_sent build_request_def)

text \<open>Both settings of the mode.\<close>

theorem getList_training_ground_param_witness:
  "(\<exists>r. sent_requests (trace (snd (getList (env_with server) (service True False) st_init))) =
          sent_requests (trace st_init) @ [r] \<and>
        req_params r = [(''set'', PStr ''cviciste'')]) \<and>
   (\<exists>r. sent_requests (trace (snd (getList (env_with server) (service False False) st_init))) =
          sent_requests (trace st_init) @ [r] \<and>
        req_params r = [])"
  using getList_training_ground_param [of "env_with server" "service True False" st_init]
    getList_training_ground_param [of "env_with server" "service False False" st_init]
  by (auto simp add: service_def)

lemma callApi_answered:
  assumes "http env (build_request self operation eh ep d) (world st) = (Inr resp, w)"
  shows "callApi env self operation eh ep d st =
     (let st2 = st\<lparr>world := w,
                   trace := trace st @ call_events self (build_request self operation eh ep d)\<rparr>
      in if status_code resp \<noteq> 200 then
           (case header_get (resp_headers resp) ''content-type'' of
              None \<Rightarrow> (Raise (KeyError ''content-type''), st2)
            | Some ct \<Rightarrow>
                if ct = ''application/json'' then
                  raise_or (resp_json resp)
                    (\<lambda>j. raise_or (getitem j ''errorMsg'')
                       (\<lambda>m st. (Exit 1, print (str_neprijala @ py_str env m) st))) st2
                else (if verbose self then Raise TypeError else Exit 1, print str_chybou st2))
         else (Return resp, st2))"
  using assms
  by (simp add: callApi_def Let_def print_def call_events_def split: option.splits)

text \<open>
  Claim C10. When the server answers with a status other than 200, \<open>callApi\<close> reads the
  header \<open>content-type\<close> without a default. If the header is absent the lookup raises
  KeyError and nothing more is printed: the trace ends with the request. If it is there
  with a value other than exactly \<open>application/json\<close>, the generic message is
  printed. Only if it is exactly \<open>application/json\<close> is the message of the JSON body
  printed.
\<close>

theorem callApi_content_type_dispatch:
  assumes "http env (build_request self operation eh ep d) (world st) = (Inr resp, w)"
    and "status_code resp \<noteq> 200"
  shows
    "(header_get (resp_headers resp) ''content-type'' = None \<longrightarrow>
        callApi env self operation eh ep d st =
          (Raise (KeyError ''content-type''),
           st\<lparr>world := w,
              trace := trace st @ call_events self (build_request self operation eh ep d)\<rparr>)) \<and>
     (\<forall>ct. header_get (resp_headers resp) ''content-type'' = Some ct \<and> ct \<noteq> ''application/json'' \<longrightarrow>
        callApi env self operation eh ep d st =
          (if verbose self then Raise TypeError else Exit 1,
           print str_chybou
             (st\<lparr>world := w,
                 trace := trace st @ call_events self (build_request self operation eh ep d)\<rparr>))) \<and>
     (\<forall>j m. header_get (resp_headers resp) ''content-type'' = Some ''application/json'' \<and>
            resp_json resp = Inr j \<and> getitem j ''errorMsg'' = Inr m \<longrightarrow>
        callApi env self operation eh ep d st =
          (Exit 1,
           print (str_neprijala @ py_str env m)
             (st\<lparr>world := w,
                 trace := trace st @ call_events self (build_request self operation eh ep d)\<rparr>)))"
  using assms(2) by (simp add: callApi_answered [OF assms(1)] Let_def raise_or_def)

lemma header_get_examples:
  "header_get (resp_headers resp_bare) ''content-type'' = None"
  "header_get (resp_headers resp_html) ''content-type'' = Some ''text/html''"
  "header_get (resp_headers (resp_error msg)) ''content-type'' = Some ''application/json''"
  by (simp add: header_get_def resp_bare_def, code_simp, code_simp)

text \<open>An answer without the header, one with \<open>text/html\<close> and one with JSON.\<close>

theorem callApi_content_type_dispatch_witness:
  "callApi (env_with server_bare) (service False False) LIST [] [] (DataDict []) st_init =
     (Raise (KeyError ''content-type''),
      st_init\<lparr>world := 1,
         trace := trace st_init @
           call_events (service False False)
             (build_request (service False False) LIST [] [] (DataDict []))\<rparr>) \<and>
   callApi (env_with server_html) (service False False) LIST [] [] (DataDict []) st_init =
     (Exit 1,
      print str_chybou
        (st_init\<lparr>world := 1,
           trace := trace st_init @
             call_events (service False False)
               (build_request (service False False) LIST [] [] (DataDict []))\<rparr>)) \<and>
   callApi (env_with server_refusing) (service False False) GET_TEST []
       [(''task'', PStr ''32-Z4-1''), (''subtask'', PInt 2), (''generate'', PStr ''true'')]
       (DataDict []) st_init =
     (Exit 1,
      print (str_neprijala @ ''No such subtask'')
        (st_init\<lparr>world := 1,
           trace := trace st_init @
             call_events (service False False)
               (build_request (service False False) GET_TEST []
                  [(''task'', PStr ''32-Z4-1''), (''subtask'', PInt 2), (''generate'', PStr ''true'')]
                  (DataDict []))\<rparr>))"
proof -
  have b: "http (env_with server_bare)
      (build_request (service False False) LIST [] [] (DataDict [])) (world st_init) =
      (Inr resp_bare, 1)"
    by (simp add: env_with_def server_bare_def st_init_def)
  have bs: "status_code resp_bare \<noteq> 200" by (simp add: resp_bare_def)
  have h: "http (env_with server_html)
      (build_request (service False False) LIST [] [] (DataDict [])) (world st_init) =
      (Inr resp_html, 1)"
    by (simp add: env_with_def server_html_def st_init_def)
  have hs: "status_code resp_html \<noteq> 200" by (simp add: resp_html_def)
  have r: "http (env_with server_refusing)
      (build_request (service False False) GET_TEST []
         [(''task'', PStr ''32-Z4-1''), (''subtask'', PInt 2), (''generate'', PStr ''true'')]
         (DataDict [])) (world st_init) =
      (Inr (resp_error ''No such subtask''), 1)"
    by (simp add: env_with_def server_refusing_def st_init_def build_request_def service_def)
  have rs: "status_code (resp_error ''No such subtask'') \<noteq> 200" by (simp add: resp_error_def)
  have rj: "resp_json (resp_error ''No such subtask'') = Inr (JObj [(''errorMsg'', JStr ''No such subtask'')])"
    "getitem (JObj [(''errorMsg'', JStr ''No such subtask'')]) ''errorMsg'' = Inr (JStr ''No such subtask'')"
    by (simp_all add: resp_error_def)
  have v: "\<not> verbose (service False False)" by (simp add: service_def)
  from callApi_content_type_dispatch [OF b bs] callApi_content_type_dispatch [OF h hs]
    callApi_content_type_dispatch [OF r rs] rj v
  show ?thesis
    by (simp add: header_get_examples py_str_def)
qed

text \<open>
  Claim C3 says that on an answer that is no JSON the raw body is shown if and only if
  the verbose mode is on, and that the process then exits with a failure status. In the
  verbose mode the code prints the generic message and then calls \<open>response.text\<close>,
  which is a string: the call raises TypeError, the body \<open><h1>Server Error</h1>\<close>
  is never printed and \<open>sys.exit\<close> is not reached.
\<close>

theorem callApi_verbose_body_not_shown:
  "callApi (env_with server_html) (service False True) LIST [] [] (DataDict []) st_init =
     (Raise TypeError,
      \<lparr>world = 1,
       trace = [Printed (str_posilam @ ''https://ksp.mff.cuni.cz/api/tasks/list''),
                Sent \<lparr>req_method = GET, req_url = ''https://ksp.mff.cuni.cz/api/tasks/list'',
                      req_headers = [(''Authorization'', ''Bearer secret'')],
                      req_params = [], req_data = DataDict []\<rparr>,
                Printed str_chybou]\<rparr>)"
proof -
  have h: "http (env_with server_html)
      (build_request (service False True) LIST [] [] (DataDict [])) (world st_init) =
      (Inr resp_html, 1)"
    by (simp add: env_with_def server_html_def st_init_def)
  have hs: "status_code resp_html \<noteq> 200" by (simp add: resp_html_def)
  show ?thesis
    by (subst callApi_answered [OF h])
      (simp add: Let_def header_get_examples hs call_events_def build_request_def
        service_def st_init_def print_def dict_merge_def default_api_url_def)
qed

section \<open>Properties of the run over all subtasks\<close>









lemma sent_requests_print: "sent_requests (trace (print s st)) = sent_requests (trace st)"
  by (simp add: print_def sent_requests_append)







lemma server_http: "http (env_with server) req w = (Inr (answer req), Suc w)"
  by (simp add: env_with_def server_def)

lemma status_code_answer: "status_code (answer req) = 200"
  by (simp add: answer_def resp_ok_def)


lemma answer_input:
  "answer (getTest_request (service False False) t k) = resp_ok ''5 7'' (Inl JSONDecodeError)"
  by (simp add: answer_def getTest_request_def build_request_def service_def default_api_url_def)


lemma quiet: "\<not> verbose (service tg False)"
  by (simp add: service_def)

lemma callApi_server:
  "callApi (env_with server) (service tg False) operation eh ep d st =
     (Return (answer (build_request (service tg False) operation eh ep d)),
      st\<lparr>world := Suc (world st),
         trace := trace st @ [Sent (build_request (service tg False) operation eh ep d)]\<rparr>)"
  by (subst callApi_answered [OF server_http])
    (simp add: Let_def status_code_answer call_events_def quiet)






lemma resp_ok_sel: "resp_json (resp_ok txt j) = j" "resp_text (resp_ok txt j) = txt"
  by (simp_all add: resp_ok_def)











lemma getTest_True:
  "getTest env self t k True =
     callApi env self GET_TEST []
       [(''task'', PStr t), (''subtask'', PInt k), (''generate'', PStr ''true'')] (DataDict [])"
  by (simp add: getTest_def)








section \<open>Properties of the command handlers\<close>

lemma extends_refl: "extends P st st"
  by (simp add: extends_def)

lemma extends_trans: "extends P a b \<Longrightarrow> extends P b c \<Longrightarrow> extends P a c"
  by (auto simp add: extends_def)

lemma extends_print: "extends P st (print s st)"
  by (simp add: extends_def print_def sent_requests_append)

lemma extends_callApi:
  assumes "P (build_request self operation eh ep d)"
  shows "extends P st (snd (callApi env self operation eh ep d st))"
  using assms by (simp add: extends_def callApi_sent)

lemma extends_then_do:
  assumes "extends P st (snd (m st))"
    and "\<And>x s1. m st = (Return x, s1) \<Longrightarrow> extends P s1 (snd (f x s1))"
  shows "extends P st (snd (then_do m f st))"
proof (cases "m st")
  case (Pair res s1)
  show ?thesis
  proof (cases res)
    case (Return x)
    with Pair assms(1) assms(2) [of x s1] show ?thesis
      by (auto simp add: then_do_def intro: extends_trans)
  next
    case (Exit n)
    with Pair assms(1) show ?thesis by (simp add: then_do_def)
  next
    case (Raise e)
    with Pair assms(1) show ?thesis by (simp add: then_do_def)
  qed
qed

lemma extends_raise_or:
  assumes "\<And>x. v = Inr x \<Longrightarrow> extends P st (snd (f x st))"
  shows "extends P st (snd (raise_or v f st))"
  using assms by (cases v) (simp_all add: raise_or_def extends_refl)

lemma extends_run_solver: "extends P st (snd (run_solver env sol_args input st))"
  by (auto simp add: run_solver_def Let_def extends_def sent_requests_append
      split: prod.splits sum.splits)

lemma sent_requests_print_rows:
  "sent_requests (trace (snd (print_rows env items st))) = sent_requests (trace st)"
  by (induction items arbitrary: st)
    (auto simp add: raise_or_def Let_def sent_requests_print split: sum.splits)

lemma sent_requests_printTableStatus:
  "sent_requests (trace (snd (printTableStatus env json_text st))) = sent_requests (trace st)"
  by (auto simp add: printTableStatus_def raise_or_def Let_def sent_requests_print
      sent_requests_print_rows split: sum.splits)

lemma extends_printTableStatus: "extends P st (snd (printTableStatus env json_text st))"
  by (simp add: extends_def sent_requests_printTableStatus)

lemma not_generate_build:
  "operation \<noteq> GENERATE \<Longrightarrow> not_generate self (build_request self operation eh ep d)"
  by (cases operation) (simp_all add: not_generate_def build_request_def)

lemma extends_getList: "extends (not_generate self) st (snd (getList env self st))"
  unfolding getList_def Let_def by (rule extends_callApi) (simp add: not_generate_build)

lemma extends_getStatus: "extends (not_generate self) st (snd (getStatus env self task st))"
  unfolding getStatus_def by (rule extends_callApi) (simp add: not_generate_build)

lemma extends_getTest: "extends (not_generate self) st (snd (getTest env self task k g st))"
  unfolding getTest_def by (rule extends_callApi) (simp add: not_generate_build)

lemma extends_submit: "extends (not_generate self) st (snd (submit env self task k c st))"
  unfolding submit_def Let_def by (rule extends_callApi) (simp add: not_generate_build)

lemma extends_Return_print: "extends P st (snd (Return x, print s st))"
  by (simp add: extends_print)

lemma extends_handleList: "extends (not_generate self) st (snd (handleList env self st))"
  unfolding handleList_def printNiceJson_def
  by (intro extends_then_do extends_getList extends_raise_or extends_Return_print)

lemma extends_handleStatus:
  "extends (not_generate self) st (snd (handleStatus env self task st))"
  unfolding handleStatus_def
  by (intro extends_then_do extends_getStatus extends_raise_or extends_printTableStatus)

lemma extends_handleSubmit:
  "extends (not_generate self) st (snd (handleSubmit env self task k file st))"
  unfolding handleSubmit_def Let_def printNiceJson_def
  by (intro extends_then_do extends_submit extends_raise_or extends_Return_print)

lemma extends_handleGenerate:
  "extends (not_generate self) st (snd (handleGenerate env self task k st))"
  unfolding handleGenerate_def
  by (intro extends_then_do extends_getTest extends_Return_print)

lemma extends_run_subtask:
  "extends (not_generate self) st (snd (run_subtask env self task sol_args k st))"
  unfolding run_subtask_def Let_def
  by (intro extends_then_do extends_getTest extends_run_solver extends_submit
      extends_raise_or extends_Return_print)

lemma extends_run_loop:
  "extends (not_generate self) st (snd (run_loop env self task sol_args ks st))"
proof (induction ks arbitrary: st)
  case Nil
  show ?case by (simp add: extends_refl)
next
  case (Cons k ks)
  show ?case
  proof (cases "run_subtask env self task sol_args k st")
    case (Pair res s1)
    with extends_run_subtask [of self st env task sol_args k]
    have e: "extends (not_generate self) st s1" by simp
    show ?thesis
    proof (cases res)
      case (Return u)
      with Pair e Cons.IH [of s1] show ?thesis by (auto intro: extends_trans)
    next
      case (Exit n)
      with Pair e show ?thesis by simp
    next
      case (Raise x)
      with Pair e show ?thesis by simp
    qed
  qed
qed

lemma extends_handleRun:
  "extends (not_generate self) st (snd (handleRun env self task sol_args st))"
  unfolding handleRun_def
  by (intro extends_then_do extends_getStatus extends_raise_or extends_run_loop)

lemma extends_operations:
  "extends (not_generate self) st (snd (operations env self cmd st))"
  by (cases cmd)
    (simp_all add: extends_handleList extends_handleStatus extends_handleSubmit
      extends_handleGenerate extends_handleRun)

lemma callApi_trace:
  "\<exists>post. trace (snd (callApi env self operation eh ep d st)) =
            trace st @ call_events self (build_request self operation eh ep d) @ post \<and>
          sent_requests post = []"
  by (auto simp add: callApi_def Let_def print_def raise_or_def call_events_def
      split: prod.splits sum.splits pyerr.splits option.splits)

lemma handleGenerate_trace:
  "\<exists>post. trace (snd (handleGenerate env self task subtask st)) =
            trace st @ call_events self (getTest_request self task subtask) @ post \<and>
          sent_requests post = []"
proof -
  from callApi_trace [of env self GET_TEST "[]"
      "[(''task'', PStr task), (''subtask'', PInt subtask), (''generate'', PStr ''true'')]"
      "DataDict []" st]
  obtain post where
    t: "trace (snd (getTest env self task subtask True st)) =
          trace st @ call_events self (getTest_request self task subtask) @ post"
    and p: "sent_requests post = []"
    by (auto simp add: getTest_def getTest_request_def)
  show ?thesis
  proof (cases "getTest env self task subtask True st")
    case (Pair res s1)
    with t have t1: "trace s1 = trace st @ call_events self (getTest_request self task subtask) @ post"
      by simp
    show ?thesis
    proof (cases res)
      case (Return r)
      with Pair t1 have "trace (snd (handleGenerate env self task subtask st)) =
          trace st @ call_events self (getTest_request self task subtask) @
            (post @ [Printed (resp_text r)])"
        by (simp add: handleGenerate_def then_do_def print_def)
      moreover from p have "sent_requests (post @ [Printed (resp_text r)]) = []"
        by (simp add: sent_requests_append)
      ultimately show ?thesis by blast
    next
      case (Exit n)
      with Pair t1 p show ?thesis by (auto simp add: handleGenerate_def then_do_def)
    next
      case (Raise e)
      with Pair t1 p show ?thesis by (auto simp add: handleGenerate_def then_do_def)
    qed
  qed
qed

text \<open>
  Claim C9. The handler of the subcommand \<open>generate\<close> sends exactly one request, the
  one of \<open>getTest\<close>: a POST to \<open>tasks/input\<close> with the parameter \<open>generate\<close> set
  to \<open>true\<close>; when that call returns a response, the handler prints its text and
  returns. No handler of the table \<open>operations\<close> ever sends a request to
  \<open>tasks/generate\<close>, the only address that the method \<open>generate\<close> of the client
  uses.
\<close>

theorem handleGenerate_calls_getTest:
  "(\<exists>post. trace (snd (handleGenerate env self task subtask st)) =
            trace st @ call_events self (getTest_request self task subtask) @ post \<and>
          sent_requests post = []) \<and>
   req_method (getTest_request self task subtask) = POST \<and>
   req_url (getTest_request self task subtask) = api_url self @ ''tasks/input'' \<and>
   req_params (getTest_request self task subtask) =
     [(''task'', PStr task), (''subtask'', PInt subtask), (''generate'', PStr ''true'')] \<and>
   (\<forall>r st1. getTest env self task subtask True st = (Return r, st1) \<longrightarrow>
      handleGenerate env self task subtask st = (Return (), print (resp_text r) st1)) \<and>
   (\<forall>cmd. \<exists>new. sent_requests (trace (snd (operations env self cmd st))) =
                    sent_requests (trace st) @ new \<and>
                  (\<forall>q\<in>set new. req_url q \<noteq> api_url self @ getURL GENERATE))"
proof -
  have a: "\<forall>r st1. getTest env self task subtask True st = (Return r, st1) \<longrightarrow>
      handleGenerate env self task subtask st = (Return (), print (resp_text r) st1)"
    by (simp add: handleGenerate_def then_do_def)
  have b: "\<forall>cmd. \<exists>new. sent_requests (trace (snd (operations env self cmd st))) =
                    sent_requests (trace st) @ new \<and>
                  (\<forall>q\<in>set new. req_url q \<noteq> api_url self @ getURL GENERATE)"
    using extends_operations [of self st env]
    by (simp add: extends_def not_generate_def list_all_iff)
  from handleGenerate_trace [of env self task subtask st] a b show ?thesis
    by (simp add: getTest_request_def build_request_def)
qed

lemma getTest_server:
  "getTest (env_with server) (service False False) t k True st =
     (Return (resp_ok ''5 7'' (Inl JSONDecodeError)),
      st\<lparr>world := Suc (world st),
         trace := trace st @ [Sent (getTest_request (service False False) t k)]\<rparr>)"
  unfolding getTest_True
  by (simp add: callApi_server answer_input [unfolded getTest_request_def] getTest_request_def)

text \<open>The subcommand \<open>generate\<close> for subtask 1 on the server of the example.\<close>

theorem handleGenerate_calls_getTest_witness:
  "getTest (env_with server) (service False False) ''32-Z4-1'' 1 True st_init =
     (Return (resp_ok ''5 7'' (Inl JSONDecodeError)),
      st_init\<lparr>world := Suc (world st_init),
         trace := trace st_init @
           [Sent (getTest_request (service False False) ''32-Z4-1'' 1)]\<rparr>) \<and>
   handleGenerate (env_with server) (service False False) ''32-Z4-1'' 1 st_init =
     (Return (),
      print ''5 7''
        (st_init\<lparr>world := Suc (world st_init),
           trace := trace st_init @
             [Sent (getTest_request (service False False) ''32-Z4-1'' 1)]\<rparr>)) \<and>
   sent_requests (trace (snd (operations (env_with server) (service False False)
                                (CmdGenerate ''32-Z4-1'' 1) st_init))) =
     sent_requests (trace st_init) @ [getTest_request (service False False) ''32-Z4-1'' 1] \<and>
   req_url (getTest_request (service False False) ''32-Z4-1'' 1) \<noteq>
     api_url (service False False) @ getURL GENERATE"
proof -
  note g = getTest_server [of "''32-Z4-1''" 1 st_init]
  note t = handleGenerate_calls_getTest
    [of "env_with server" "service False False" "''32-Z4-1''" 1 st_init]
  from t g have h: "handleGenerate (env_with server) (service False False) ''32-Z4-1'' 1 st_init =
     (Return (),
      print ''5 7''
        (st_init\<lparr>world := Suc (world st_init),
           trace := trace st_init @
             [Sent (getTest_request (service False False) ''32-Z4-1'' 1)]\<rparr>))"
    by (simp add: resp_ok_sel)
  then have s: "sent_requests (trace (snd (operations (env_with server) (service False False)
                                (CmdGenerate ''32-Z4-1'' 1) st_init))) =
     sent_requests (trace st_init) @ [getTest_request (service False False) ''32-Z4-1'' 1]"
    by (simp add: sent_requests_print sent_requests_append)
  from t obtain new where
    n: "sent_requests (trace (snd (operations (env_with server) (service False False)
                                (CmdGenerate ''32-Z4-1'' 1) st_init))) =
          sent_requests (trace st_init) @ new"
    and q: "\<forall>q\<in>set new. req_url q \<noteq> api_url (service False False) @ getURL GENERATE"
    by blast
  from s n have "new = [getTest_request (service False False) ''32-Z4-1'' 1]" by simp
  with q have "req_url (getTest_request (service False False) ''32-Z4-1'' 1) \<noteq>
     api_url (service False False) @ getURL GENERATE" by simp
  with g h s show ?thesis by blast
qed

end
